theory Spec2Isabelle
  imports Main
begin

section \<open>Data model of DocumentEditor.tsx\<close>

text \<open>
  The component is a React function component. Its state variables (\<open>useState\<close>), its
  refs (\<open>useRef\<close>) and the part of the browser it touches (the contenteditable surface,
  the window selection, the clock) are the fields of one record. Every \<open>await\<close> is a
  suspended task that a later event resumes, every call of the store, of the channel and
  of \<open>console.error\<close> is appended to a log, and a function value created during a render
  carries the state values of that render with it (a closure).
\<close>

text \<open>
  The signed-in user (\<open>state.user\<close> of the auth provider): \<open>user.id\<close>, \<open>user.email\<close>, and
  \<open>ref\<close>, the reference of the object. React compares the dependencies of an effect with
  \<open>Object.is\<close>: two user objects are the same dependency only when they are the same
  object. An object is not changed once the provider has delivered it, so equal
  references carry equal fields, and equality of \<open>identity\<close> values is \<open>Object.is\<close>. A
  provider that delivers the same user again as a new object delivers another \<open>ref\<close>.
\<close>

record identity =
  ref :: nat
  uid :: string
  email :: "string option"

record comment_user =
  cu_email :: "string option"

text \<open>
  \<open>interface Comment\<close>. \<open>createdAt\<close> is \<open>new Date().toISOString()\<close>; the model keeps the
  millisecond reading of the clock that the text is rendered from.
\<close>

record comment =
  c_id :: string
  c_documentId :: string
  c_userId :: string
  c_content :: string
  c_positionStart :: nat
  c_positionEnd :: nat
  c_createdAt :: nat
  c_resolved :: bool
  c_user :: "comment_user option"

text \<open>\<open>interface CollaborativeUser\<close>, the \<open>metadata\<close> object flattened.\<close>

record collaborative_user =
  userId :: string
  displayName :: string
  p_email :: string
  cursor :: "nat option"
  lastSeen :: nat

text \<open>
  A record of the \<open>documents\<close> table. The title commit writes a record without
  \<open>content\<close>, so both fields are optional, as they are for the reader
  (\<open>doc.title || ...\<close>, \<open>doc.content || ...\<close>).
\<close>

record document =
  d_id :: string
  d_title :: "string option"
  d_content :: "string option"
  d_userId :: string
  d_updatedAt :: nat

text \<open>
  \<open>window.getSelection()\<close>: \<open>null\<close>, a selection without a range (\<open>rangeCount === 0\<close>),
  or a selection whose first range has a start and an end offset. The range lies inside
  the editing surface or elsewhere in the page.
\<close>

datatype container = InEditor | Elsewhere

datatype selection = NoSelection | NoRange | SelRange container nat nat

datatype dom_error = IndexSizeError

text \<open>
  A channel message: \<open>message.userId\<close> is the sender, \<open>message.type\<close> with
  \<open>message.data\<close> is the payload (\<open>{content, updatedBy}\<close>, \<open>{title, updatedBy}\<close>,
  \<open>{comment}\<close>, or a type the handler does not know).
\<close>

datatype payload =
    ContentUpdate string string
  | TitleUpdate string string
  | CommentAdded comment
  | UnknownType

record message =
  m_userId :: string
  m_payload :: payload

text \<open>What the component does to the outside, in the order it does it.\<close>

datatype effect =
    DocumentsList string nat
  | DocumentsUpsert document
  | CommentsList string
  | CommentsCreate comment
  | ChannelSubscribe string string string string nat
  | Publish string payload
  | ConsoleError string
  | Uncaught dom_error

text \<open>
  The values a function created in a render sees: \<open>saveDocument\<close> reads \<open>user\<close>,
  \<open>isSaving\<close>, \<open>documentTitle\<close> and \<open>documentContent\<close> of the render it was created in.
\<close>

record closure =
  cl_user :: "identity option"
  cl_isSaving :: bool
  cl_documentTitle :: string
  cl_documentContent :: string

text \<open>An async function suspended at an \<open>await\<close>, with the values its continuation uses.\<close>

datatype task =
    LoadDocumentAwait
  | LoadCommentsAwait
  | SetupRealtimeAwait identity
  | SaveUpsertAwait identity closure
  | SavePublishAwait identity closure
  | TitleUpsertAwait identity string
  | TitlePublishAwait
  | CommentCreateAwait identity comment
  | CommentPublishAwait

text \<open>How an awaited call settles.\<close>

datatype response =
    Rejected
  | Fulfilled
  | Documents "document list"
  | Comments "comment list"

text \<open>
  \<open>documentId\<close> is the prop the parent passes, the same at every render (a mount without
  the prop is not modelled: line 78 then computes a new default id at each render).
  \<open>editorHTML\<close> is what \<open>editorRef.current.innerHTML\<close> reads, \<open>saveTimeout\<close> the timer that has
  been started and has not fired, \<open>handlers\<close> the users whose \<open>onMessage\<close> and \<open>onPresence\<close>
  handlers are registered on the channel, oldest first, \<open>tasks\<close> the suspended async
  functions, \<open>now\<close> the clock in ms, \<open>effects\<close> the log of calls.
\<close>

record state =
  documentId :: string
  documentTitle :: string
  documentContent :: string
  isEditing :: bool
  user :: "identity option"
  isLoading :: bool
  isSaving :: bool
  lastSaved :: "nat option"
  collaborators :: "collaborative_user list"
  comments :: "comment list"
  selectedText :: string
  saveTimeout :: "(nat \<times> closure) option"
  editorHTML :: string
  windowSelection :: selection
  handlers :: "identity list"
  tasks :: "task list"
  now :: nat
  effects :: "effect list"

text \<open>
  What the browser's HTML parser makes of a string assigned to \<open>innerHTML\<close>: the markup
  that \<open>innerHTML\<close> reads back afterwards (the serialised parse, which need not be the
  string assigned), the length of the surface's \<open>textContent\<close>, and the length of its
  \<open>firstChild\<close> (\<open>None\<close> when the surface has no child). \<open>range.setStart(node, k)\<close>
  throws when \<open>k\<close> exceeds the length of \<open>node\<close>.
\<close>

record dom =
  serialised :: "string \<Rightarrow> string"
  textLength :: "string \<Rightarrow> nat"
  firstChildLength :: "string \<Rightarrow> nat option"

text \<open>What the user, the browser, the store and the channel can do to the component.\<close>

datatype event =
    AuthStateChanged "identity option" bool
  | Input string
  | SelectText selection string
  | TitleClick
  | TitleChange string
  | TitleCommit
  | AddCommentClick "string option"
  | Elapse nat
  | Resolve nat response
  | ChannelMessage message
  | ChannelPresence "collaborative_user list"


section \<open>Operations\<close>

text \<open>\<open>v || d\<close> on a string that may be missing: the empty string is falsy.\<close>

definition js_or :: "string option \<Rightarrow> string \<Rightarrow> string" where
  "js_or v d = (case v of None \<Rightarrow> d | Some x \<Rightarrow> if x = [] then d else x)"

fun decimal :: "nat \<Rightarrow> string" where
  "decimal n = (if n < 10 then [char_of (48 + n)]
                else decimal (n div 10) @ [char_of (48 + n mod 10)])"

declare decimal.simps [simp del]

definition topic :: "state \<Rightarrow> string" where
  "topic s = ''document-'' @ documentId s"

definition emit :: "effect \<Rightarrow> state \<Rightarrow> state" where
  "emit e s = s\<lparr>effects := effects s @ [e]\<rparr>"

definition suspend :: "task \<Rightarrow> state \<Rightarrow> state" where
  "suspend t s = s\<lparr>tasks := tasks s @ [t]\<rparr>"

text \<open>
  The component renders the editing surface only when it is neither loading nor signed
  out, so \<open>editorRef.current\<close> is non-null exactly then.
\<close>

definition editorMounted :: "state \<Rightarrow> bool" where
  "editorMounted s = (\<not> isLoading s \<and> user s \<noteq> None)"

definition placeholder :: string where
  "placeholder = ''<div class='' @ [CHR 0x22] @ ''text-gray-400'' @ [CHR 0x22]
                 @ ''>Start typing your document...</div>''"

subsection \<open>Loading\<close>

definition loadDocument :: "state \<Rightarrow> state" where
  "loadDocument s = suspend LoadDocumentAwait (emit (DocumentsList (documentId s) 1) s)"

definition loadDocument_resume :: "dom \<Rightarrow> response \<Rightarrow> state \<Rightarrow> state" where
  "loadDocument_resume dm r s =
     (case r of
        Documents docs \<Rightarrow>
          (case docs of
             [] \<Rightarrow> s
           | doc # _ \<Rightarrow>
               let s1 = s\<lparr>documentTitle := js_or (d_title doc) ''Untitled document'',
                          documentContent := js_or (d_content doc) []\<rparr>
               in if editorMounted s
                  then s1\<lparr>editorHTML :=
                            serialised dm
                              (js_or (d_content doc) ''<div>Start typing your document...</div>'')\<rparr>
                  else s1)
      | Rejected \<Rightarrow> emit (ConsoleError ''Failed to load document:'') s
      | _ \<Rightarrow> s)"

definition loadComments :: "state \<Rightarrow> state" where
  "loadComments s = suspend LoadCommentsAwait (emit (CommentsList (documentId s)) s)"

definition loadComments_resume :: "response \<Rightarrow> state \<Rightarrow> state" where
  "loadComments_resume r s =
     (case r of
        Comments commentsList \<Rightarrow> s\<lparr>comments := commentsList\<rparr>
      | Rejected \<Rightarrow> emit (ConsoleError ''Failed to load comments:'') s
      | _ \<Rightarrow> s)"

subsection \<open>Realtime channel\<close>

definition displayNameOf :: "identity \<Rightarrow> string" where
  "displayNameOf u =
     js_or (map_option (takeWhile (\<lambda>c. c \<noteq> CHR ''@'')) (email u)) ''Anonymous''"

definition setupRealtime :: "state \<Rightarrow> state" where
  "setupRealtime s =
     (case user s of
        None \<Rightarrow> s
      | Some u \<Rightarrow>
          suspend (SetupRealtimeAwait u)
            (emit (ChannelSubscribe (topic s) (uid u) (displayNameOf u) (js_or (email u) []) 0) s))"

definition setupRealtime_resume :: "identity \<Rightarrow> response \<Rightarrow> state \<Rightarrow> state" where
  "setupRealtime_resume u r s =
     (case r of
        Fulfilled \<Rightarrow> s\<lparr>handlers := handlers s @ [u]\<rparr>
      | Rejected \<Rightarrow> emit (ConsoleError ''Failed to setup realtime:'') s
      | _ \<Rightarrow> s)"

text \<open>
  Assigning \<open>innerHTML\<close> removes the surface's children; the DOM moves a live range whose
  boundary points were inside them to offset 0 of the surface.
\<close>

fun rangeAfterReplace :: "selection \<Rightarrow> selection" where
  "rangeAfterReplace (SelRange InEditor a b) = SelRange InEditor 0 0"
| "rangeAfterReplace sel = sel"

text \<open>\<open>range.setStart(firstChild, k); range.collapse(true)\<close> on a first child of length \<open>n\<close>.\<close>

definition setStart :: "nat \<Rightarrow> nat \<Rightarrow> dom_error + selection" where
  "setStart n k = (if k \<le> n then Inr (SelRange InEditor k k) else Inl IndexSizeError)"

text \<open>
  The body of the \<open>content-update\<close> branch once its guards have passed.
  \<open>selection?.getRangeAt(0)\<close> stands before the \<open>try\<close>: on a selection without a range it
  throws out of the handler before anything is changed.
\<close>

definition applyRemoteContent :: "dom \<Rightarrow> string \<Rightarrow> state \<Rightarrow> dom_error + state" where
  "applyRemoteContent dm content s =
     (case windowSelection s of
        NoRange \<Rightarrow> Inl IndexSizeError
      | NoSelection \<Rightarrow>
          Inr (s\<lparr>editorHTML := serialised dm content, documentContent := content\<rparr>)
      | SelRange loc a b \<Rightarrow>
          let startOffset = a;
              s1 = s\<lparr>editorHTML := serialised dm content, documentContent := content,
                     windowSelection := rangeAfterReplace (SelRange loc a b)\<rparr>
          in (case firstChildLength dm content of
                None \<Rightarrow> Inr s1
              | Some n \<Rightarrow>
                  (case setStart n (min startOffset (textLength dm content)) of
                     Inl e \<Rightarrow> Inr s1
                   | Inr r \<Rightarrow> Inr (s1\<lparr>windowSelection := r\<rparr>))))"

text \<open>The \<open>channel.onMessage\<close> handler that \<open>setupRealtime\<close> registered for user \<open>u\<close>.\<close>

definition onMessage :: "dom \<Rightarrow> identity \<Rightarrow> message \<Rightarrow> state \<Rightarrow> dom_error + state" where
  "onMessage dm u m s =
     (case m_payload m of
        ContentUpdate content updatedBy \<Rightarrow>
          if m_userId m \<noteq> uid u
          then (if editorMounted s \<and> content \<noteq> []
                then applyRemoteContent dm content s
                else Inr s)
          else Inr s
      | TitleUpdate title updatedBy \<Rightarrow>
          if m_userId m \<noteq> uid u then Inr (s\<lparr>documentTitle := title\<rparr>) else Inr s
      | CommentAdded c \<Rightarrow> Inr (s\<lparr>comments := c # comments s\<rparr>)
      | UnknownType \<Rightarrow> Inr s)"

text \<open>The \<open>channel.onPresence\<close> handler that \<open>setupRealtime\<close> registered for user \<open>u\<close>.\<close>

definition onPresence :: "identity \<Rightarrow> collaborative_user list \<Rightarrow> state \<Rightarrow> state" where
  "onPresence u users s = s\<lparr>collaborators := filter (\<lambda>x. userId x \<noteq> uid u) users\<rparr>"

text \<open>
  The channel calls every registered handler with the message. A handler that throws
  leaves the state as it found it; the exception is recorded.
\<close>

fun deliver :: "dom \<Rightarrow> message \<Rightarrow> identity list \<Rightarrow> state \<Rightarrow> state" where
  "deliver dm m [] s = s"
| "deliver dm m (u # us) s =
     (case onMessage dm u m s of
        Inl e \<Rightarrow> deliver dm m us (emit (Uncaught e) s)
      | Inr s' \<Rightarrow> deliver dm m us s')"

subsection \<open>Saving\<close>

definition saveDocument :: "closure \<Rightarrow> state \<Rightarrow> state" where
  "saveDocument cl s =
     (case cl_user cl of
        None \<Rightarrow> s
      | Some u \<Rightarrow>
          if cl_isSaving cl then s
          else suspend (SaveUpsertAwait u cl)
                 (emit (DocumentsUpsert
                          \<lparr>d_id = documentId s, d_title = Some (cl_documentTitle cl),
                           d_content = Some (cl_documentContent cl), d_userId = uid u,
                           d_updatedAt = now s\<rparr>)
                    (s\<lparr>isSaving := True\<rparr>)))"

definition saveUpsert_resume :: "identity \<Rightarrow> closure \<Rightarrow> response \<Rightarrow> state \<Rightarrow> state" where
  "saveUpsert_resume u cl r s =
     (case r of
        Fulfilled \<Rightarrow>
          suspend (SavePublishAwait u cl)
            (emit (Publish (topic s) (ContentUpdate (cl_documentContent cl) (uid u)))
               (s\<lparr>lastSaved := Some (now s)\<rparr>))
      | Rejected \<Rightarrow> (emit (ConsoleError ''Failed to save document:'') s)\<lparr>isSaving := False\<rparr>
      | _ \<Rightarrow> s)"

definition savePublish_resume :: "response \<Rightarrow> state \<Rightarrow> state" where
  "savePublish_resume r s =
     (case r of
        Fulfilled \<Rightarrow> s\<lparr>isSaving := False\<rparr>
      | Rejected \<Rightarrow> (emit (ConsoleError ''Failed to save document:'') s)\<lparr>isSaving := False\<rparr>
      | _ \<Rightarrow> s)"

definition handleTitleSave :: "state \<Rightarrow> state" where
  "handleTitleSave s =
     (let s1 = s\<lparr>isEditing := False\<rparr>
      in case user s of
           None \<Rightarrow> s1
         | Some u \<Rightarrow>
             suspend (TitleUpsertAwait u (documentTitle s))
               (emit (DocumentsUpsert
                        \<lparr>d_id = documentId s, d_title = Some (documentTitle s),
                         d_content = None, d_userId = uid u, d_updatedAt = now s\<rparr>) s1))"

definition titleUpsert_resume :: "identity \<Rightarrow> string \<Rightarrow> response \<Rightarrow> state \<Rightarrow> state" where
  "titleUpsert_resume u title r s =
     (case r of
        Fulfilled \<Rightarrow>
          suspend TitlePublishAwait (emit (Publish (topic s) (TitleUpdate title (uid u))) s)
      | Rejected \<Rightarrow> emit (ConsoleError ''Failed to save title:'') s
      | _ \<Rightarrow> s)"

definition titlePublish_resume :: "response \<Rightarrow> state \<Rightarrow> state" where
  "titlePublish_resume r s =
     (case r of Rejected \<Rightarrow> emit (ConsoleError ''Failed to save title:'') s | _ \<Rightarrow> s)"

subsection \<open>Editing, selecting, commenting\<close>

text \<open>
  The user changed the surface to \<open>html\<close>, by typing (\<open>onInput\<close>) or through a formatting
  command (\<open>formatText\<close>); either way \<open>handleContentChange\<close> runs and reads \<open>innerHTML\<close>.
\<close>

definition handleContentChange :: "string \<Rightarrow> state \<Rightarrow> state" where
  "handleContentChange html s =
     (if editorMounted s then s\<lparr>editorHTML := html, documentContent := html\<rparr> else s)"

text \<open>
  The user changed the selection to \<open>sel\<close> with the mouse or the keyboard inside the
  surface; \<open>onMouseUp\<close> and \<open>onKeyUp\<close> run \<open>handleTextSelection\<close>. \<open>str\<close> is the value of
  \<open>selection.toString().trim()\<close>, the selected text without the white space around it.
\<close>

definition handleTextSelection :: "selection \<Rightarrow> string \<Rightarrow> state \<Rightarrow> state" where
  "handleTextSelection sel str s =
     (let s1 = s\<lparr>windowSelection := sel\<rparr>
      in if sel \<noteq> NoSelection \<and> str \<noteq> []
         then s1\<lparr>selectedText := str\<rparr>
         else s1\<lparr>selectedText := []\<rparr>)"

text \<open>\<open>answer\<close> is what \<open>prompt('Add a comment:')\<close> returns (\<open>null\<close> when cancelled).\<close>

definition addComment :: "string option \<Rightarrow> state \<Rightarrow> state" where
  "addComment answer s =
     (if selectedText s = [] then s
      else case user s of
        None \<Rightarrow> s
      | Some u \<Rightarrow>
          (case windowSelection s of
             NoSelection \<Rightarrow> s
           | NoRange \<Rightarrow> s
           | SelRange loc startOffset endOffset \<Rightarrow>
               (case answer of
                  None \<Rightarrow> s
                | Some commentContent \<Rightarrow>
                    if commentContent = [] then s
                    else
                      let c = \<lparr>c_id = ''comment-'' @ decimal (now s),
                               c_documentId = documentId s,
                               c_userId = uid u,
                               c_content = commentContent,
                               c_positionStart = startOffset,
                               c_positionEnd = endOffset,
                               c_createdAt = now s,
                               c_resolved = False,
                               c_user = None\<rparr>
                      in suspend (CommentCreateAwait u c) (emit (CommentsCreate c) s))))"

definition commentCreate_resume :: "identity \<Rightarrow> comment \<Rightarrow> response \<Rightarrow> state \<Rightarrow> state" where
  "commentCreate_resume u c r s =
     (case r of
        Fulfilled \<Rightarrow>
          let c' = c\<lparr>c_user := Some \<lparr>cu_email = email u\<rparr>\<rparr>
          in suspend CommentPublishAwait
               (emit (Publish (topic s) (CommentAdded c')) (s\<lparr>comments := c' # comments s\<rparr>))
      | Rejected \<Rightarrow> emit (ConsoleError ''Failed to add comment:'') s
      | _ \<Rightarrow> s)"

definition commentPublish_resume :: "response \<Rightarrow> state \<Rightarrow> state" where
  "commentPublish_resume r s =
     (case r of
        Fulfilled \<Rightarrow> s\<lparr>selectedText := []\<rparr>
      | Rejected \<Rightarrow> emit (ConsoleError ''Failed to add comment:'') s
      | _ \<Rightarrow> s)"

subsection \<open>Effects of a render\<close>

definition closureOf :: "state \<Rightarrow> closure" where
  "closureOf s = \<lparr>cl_user = user s, cl_isSaving = isSaving s,
                  cl_documentTitle = documentTitle s, cl_documentContent = documentContent s\<rparr>"

text \<open>\<open>useEffect(..., [user, documentId])\<close>.\<close>

definition loadEffect :: "state \<Rightarrow> state" where
  "loadEffect s =
     (if user s \<noteq> None \<and> documentId s \<noteq> []
      then setupRealtime (loadComments (loadDocument s))
      else s)"

text \<open>
  \<open>useEffect(..., [documentContent, user, isLoading])\<close>: inside its guard it clears the
  pending timer and starts one that calls the \<open>saveDocument\<close> of this render after
  1000 ms; outside the guard it touches nothing. \<open>saveTimeout\<close> is the timer that has been
  started and has not fired, with its deadline.
\<close>

definition autoSaveEffect :: "state \<Rightarrow> state" where
  "autoSaveEffect s =
     (if user s \<noteq> None \<and> documentContent s \<noteq> [] \<and> \<not> isLoading s
      then s\<lparr>saveTimeout := Some (now s + 1000, closureOf s)\<rparr>
      else s)"

text \<open>
  After an event handler has run, React renders the new state and runs the effects whose
  dependencies changed, in the order of their declaration (a state setter called with the
  value the state already has changes nothing, and no effect runs). The user is compared
  as an object (its \<open>ref\<close>), strings and booleans by value. No effect returns a cleanup, so
  what an earlier run started (a timer, a subscription with its handlers) stays. A
  surface that appears in this render is a fresh element.
\<close>

definition commit :: "state \<Rightarrow> state \<Rightarrow> state" where
  "commit old new =
     (let s1 = (if editorMounted new \<and> \<not> editorMounted old
                then new\<lparr>editorHTML := placeholder\<rparr> else new);
          s2 = (if user new \<noteq> user old then loadEffect s1 else s1)
      in if documentContent new \<noteq> documentContent old \<or> user new \<noteq> user old
            \<or> isLoading new \<noteq> isLoading old
         then autoSaveEffect s2 else s2)"

subsection \<open>Events\<close>

text \<open>
  The clock advances by \<open>d\<close> ms. A pending timer whose deadline falls in that interval
  fires at its deadline and runs the \<open>saveDocument\<close> it holds.
\<close>

definition elapse :: "nat \<Rightarrow> state \<Rightarrow> state" where
  "elapse d s =
     (case saveTimeout s of
        None \<Rightarrow> s\<lparr>now := now s + d\<rparr>
      | Some (deadline, cl) \<Rightarrow>
          if deadline \<le> now s + d
          then (saveDocument cl (s\<lparr>now := max (now s) deadline, saveTimeout := None\<rparr>))
                 \<lparr>now := now s + d\<rparr>
          else s\<lparr>now := now s + d\<rparr>)"

definition accepts :: "task \<Rightarrow> response \<Rightarrow> bool" where
  "accepts t r =
     (case r of
        Rejected \<Rightarrow> True
      | Documents _ \<Rightarrow> t = LoadDocumentAwait
      | Comments _ \<Rightarrow> t = LoadCommentsAwait
      | Fulfilled \<Rightarrow> t \<noteq> LoadDocumentAwait \<and> t \<noteq> LoadCommentsAwait)"

fun resume :: "dom \<Rightarrow> task \<Rightarrow> response \<Rightarrow> state \<Rightarrow> state" where
  "resume dm LoadDocumentAwait r s = loadDocument_resume dm r s"
| "resume dm LoadCommentsAwait r s = loadComments_resume r s"
| "resume dm (SetupRealtimeAwait u) r s = setupRealtime_resume u r s"
| "resume dm (SaveUpsertAwait u cl) r s = saveUpsert_resume u cl r s"
| "resume dm (SavePublishAwait u cl) r s = savePublish_resume r s"
| "resume dm (TitleUpsertAwait u title) r s = titleUpsert_resume u title r s"
| "resume dm TitlePublishAwait r s = titlePublish_resume r s"
| "resume dm (CommentCreateAwait u c) r s = commentCreate_resume u c r s"
| "resume dm CommentPublishAwait r s = commentPublish_resume r s"

text \<open>The awaited call of the \<open>n\<close>-th suspended task settles with \<open>r\<close>.\<close>

definition resolve :: "dom \<Rightarrow> nat \<Rightarrow> response \<Rightarrow> state \<Rightarrow> state" where
  "resolve dm n r s =
     (if n < length (tasks s) \<and> accepts (tasks s ! n) r
      then resume dm (tasks s ! n) r
             (s\<lparr>tasks := take n (tasks s) @ drop (Suc n) (tasks s)\<rparr>)
      else s)"

fun handle :: "dom \<Rightarrow> event \<Rightarrow> state \<Rightarrow> state" where
  "handle dm (AuthStateChanged u l) s = s\<lparr>user := u, isLoading := l\<rparr>"
| "handle dm (Input html) s = handleContentChange html s"
| "handle dm (SelectText sel str) s = handleTextSelection sel str s"
| "handle dm TitleClick s = s\<lparr>isEditing := True\<rparr>"
| "handle dm (TitleChange t) s = s\<lparr>documentTitle := t\<rparr>"
| "handle dm TitleCommit s = handleTitleSave s"
| "handle dm (AddCommentClick answer) s = addComment answer s"
| "handle dm (Elapse d) s = elapse d s"
| "handle dm (Resolve n r) s = resolve dm n r s"
| "handle dm (ChannelMessage m) s = deliver dm m (handlers s) s"
| "handle dm (ChannelPresence users) s = fold (\<lambda>u. onPresence u users) (handlers s) s"

definition step :: "dom \<Rightarrow> event \<Rightarrow> state \<Rightarrow> state" where
  "step dm e s = commit s (handle dm e s)"

fun run :: "dom \<Rightarrow> event list \<Rightarrow> state \<Rightarrow> state" where
  "run dm [] s = s"
| "run dm (e # es) s = run dm es (step dm e s)"

text \<open>The component as mounted for document \<open>docId\<close> at clock reading \<open>t0\<close>.\<close>

definition init :: "string \<Rightarrow> nat \<Rightarrow> state" where
  "init docId t0 =
     \<lparr>documentId = docId, documentTitle = ''Untitled document'', documentContent = [],
      isEditing = False, user = None, isLoading = True, isSaving = False, lastSaved = None,
      collaborators = [], comments = [], selectedText = [], saveTimeout = None,
      editorHTML = [], windowSelection = NoRange, handlers = [], tasks = [], now = t0,
      effects = []\<rparr>"


section \<open>Bursts of edits\<close>

text \<open>
  A burst is a list of edits, each with the time that passes before it: wait \<open>d\<close> ms, then
  the surface reports the content \<open>c\<close>.
\<close>

fun burst :: "(nat \<times> string) list \<Rightarrow> event list" where
  "burst [] = []"
| "burst ((d, c) # es) = Elapse d # Input c # burst es"

text \<open>
  The edits of a burst fall within the quiet period when each of them is issued before the
  pending timer, if there is one, fires.
\<close>

fun quiet :: "dom \<Rightarrow> state \<Rightarrow> (nat \<times> string) list \<Rightarrow> bool" where
  "quiet dm s [] = True"
| "quiet dm s ((d, c) # es) =
     ((case saveTimeout s of None \<Rightarrow> True | Some (deadline, cl) \<Rightarrow> now s + d < deadline)
      \<and> quiet dm (step dm (Input c) (step dm (Elapse d) s)) es)"


section \<open>What the flush keeps true\<close>

text \<open>An effect that writes or broadcasts the empty string as the document's content.\<close>

fun emptyContent :: "effect \<Rightarrow> bool" where
  "emptyContent (DocumentsUpsert d) = (d_content d = Some [])"
| "emptyContent (Publish t (ContentUpdate c b)) = (c = [])"
| "emptyContent e = False"

text \<open>
  A pending timer holds a closure of a render with a user and a non-empty content, and
  while a flush is in flight the closure was made in a render that saw \<open>isSaving\<close>.
\<close>

definition timerOk :: "state \<Rightarrow> bool" where
  "timerOk s =
     (\<forall>deadline cl. saveTimeout s = Some (deadline, cl) \<longrightarrow>
        cl_user cl \<noteq> None \<and> cl_documentContent cl \<noteq> [] \<and> (isSaving s \<longrightarrow> cl_isSaving cl))"

fun taskOk :: "task \<Rightarrow> bool" where
  "taskOk (SaveUpsertAwait u cl) = (cl_documentContent cl \<noteq> [])"
| "taskOk t = True"

definition flushInv :: "state \<Rightarrow> bool" where
  "flushInv s = (timerOk s \<and> list_all taskOk (tasks s)
                 \<and> list_all (\<lambda>e. \<not> emptyContent e) (effects s))"

text \<open>What a burst of edits leaves as it was.\<close>

definition sameSession :: "state \<Rightarrow> state \<Rightarrow> bool" where
  "sameSession s0 s =
     (user s = user s0 \<and> isLoading s = isLoading s0 \<and> isSaving s = isSaving s0 \<and>
      documentTitle s = documentTitle s0 \<and> documentId s = documentId s0 \<and>
      effects s = effects s0 \<and> tasks s = tasks s0)"

text \<open>The pending timer holds the closure of the present state and is at most 1000 ms away.\<close>

definition armed :: "state \<Rightarrow> bool" where
  "armed s = (\<exists>deadline. saveTimeout s = Some (deadline, closureOf s) \<and> deadline \<le> now s + 1000)"


section \<open>Sample inputs\<close>

definition alice :: identity where
  "alice = \<lparr>ref = 1, uid = ''alice'', email = Some ''alice@example.org''\<rparr>"

text \<open>A surface whose content is plain text: one text node, or no child when empty.\<close>

definition plainText :: dom where
  "plainText = \<lparr>serialised = (\<lambda>h. h), textLength = length,
                 firstChildLength = (\<lambda>h. if h = [] then None else Some (length h))\<rparr>"

text \<open>Alice has just signed in on document \<open>doc1\<close>; the three initial calls are pending.\<close>

definition justSignedIn :: state where
  "justSignedIn = step plainText (AuthStateChanged (Some alice) False) (init ''doc1'' 0)"

text \<open>
  Then the store answered with no record and no comments, and the channel accepted the
  subscription.
\<close>

definition signedIn :: state where
  "signedIn = run plainText [AuthStateChanged (Some alice) False, Resolve 0 (Documents []),
       Resolve 0 (Comments []), Resolve 0 Fulfilled] (init ''doc1'' 0)"

text \<open>Alice signed in and typed \<open>a\<close>; the calls of the sign-in are still pending.\<close>

definition typedA :: state where
  "typedA = run plainText [AuthStateChanged (Some alice) False, Input ''a''] (init ''doc1'' 0)"

text \<open>A second later the flush of \<open>a\<close> is in flight, and Alice types \<open>b\<close>.\<close>

definition savingA :: state where
  "savingA = run plainText [AuthStateChanged (Some alice) False, Input ''a'', Elapse 1000,
                            Input ''ab''] (init ''doc1'' 0)"

text \<open>The upsert of \<open>a\<close> has succeeded and the publish is in flight.\<close>

definition publishingA :: state where
  "publishingA = run plainText [AuthStateChanged (Some alice) False, Input ''a'', Elapse 1000,
                                Resolve 3 Fulfilled] (init ''doc1'' 0)"

text \<open>A second user.\<close>

definition bob :: identity where
  "bob = \<lparr>ref = 2, uid = ''bob'', email = Some ''bob@example.org''\<rparr>"

text \<open>
  Alice has signed out and Bob has signed in on the same mounted component. The handlers
  registered for Alice are still on the channel; Bob's subscription is pending.
\<close>

definition bobJoining :: state where
  "bobJoining = run plainText [AuthStateChanged None False, AuthStateChanged (Some bob) False,
       Resolve 0 (Documents []), Resolve 0 (Comments [])] signedIn"

text \<open>
  Bob's subscription was accepted. He typed \<open>Hello\<close>, which was saved and published a
  second later, typed on to \<open>Hello world\<close>, and the caret stands at the end.
\<close>

definition bobEditing :: state where
  "bobEditing = run plainText [Resolve 0 Fulfilled, Input ''Hello'', Elapse 1000,
       Resolve 0 Fulfilled, Resolve 0 Fulfilled, Input ''Hello world'',
       SelectText (SelRange InEditor 11 11) []] bobJoining"


section \<open>Basic facts\<close>

lemmas model_defs = step_def commit_def Let_def loadEffect_def autoSaveEffect_def
  setupRealtime_def loadComments_def loadDocument_def suspend_def emit_def editorMounted_def
  init_def handleContentChange_def elapse_def saveDocument_def closureOf_def topic_def
  displayNameOf_def js_or_def resolve_def accepts_def placeholder_def
  loadDocument_resume_def loadComments_resume_def setupRealtime_resume_def
  saveUpsert_resume_def savePublish_resume_def

lemma signedIn_eq: "signedIn =
     \<lparr>documentId = ''doc1'', documentTitle = ''Untitled document'', documentContent = [],
      isEditing = False, user = Some alice, isLoading = False, isSaving = False,
      lastSaved = None, collaborators = [], comments = [], selectedText = [],
      saveTimeout = None, editorHTML = placeholder, windowSelection = NoRange,
      handlers = [alice], tasks = [], now = 0,
      effects = [DocumentsList ''doc1'' 1, CommentsList ''doc1'',
                 ChannelSubscribe ''document-doc1'' ''alice'' ''alice'' ''alice@example.org'' 0]\<rparr>"
  by (simp add: signedIn_def model_defs alice_def)

lemma justSignedIn_eq: "justSignedIn =
     \<lparr>documentId = ''doc1'', documentTitle = ''Untitled document'', documentContent = [],
      isEditing = False, user = Some alice, isLoading = False, isSaving = False,
      lastSaved = None, collaborators = [], comments = [], selectedText = [],
      saveTimeout = None, editorHTML = placeholder, windowSelection = NoRange,
      handlers = [], tasks = [LoadDocumentAwait, LoadCommentsAwait, SetupRealtimeAwait alice],
      now = 0,
      effects = [DocumentsList ''doc1'' 1, CommentsList ''doc1'',
                 ChannelSubscribe ''document-doc1'' ''alice'' ''alice'' ''alice@example.org'' 0]\<rparr>"
  by (simp add: justSignedIn_def model_defs alice_def)


lemma bobJoining_eq: "bobJoining =
     \<lparr>documentId = ''doc1'', documentTitle = ''Untitled document'', documentContent = [],
      isEditing = False, user = Some bob, isLoading = False, isSaving = False,
      lastSaved = None, collaborators = [], comments = [], selectedText = [],
      saveTimeout = None, editorHTML = placeholder, windowSelection = NoRange,
      handlers = [alice], tasks = [SetupRealtimeAwait bob], now = 0,
      effects = [DocumentsList ''doc1'' 1, CommentsList ''doc1'',
                 ChannelSubscribe ''document-doc1'' ''alice'' ''alice'' ''alice@example.org'' 0,
                 DocumentsList ''doc1'' 1, CommentsList ''doc1'',
                 ChannelSubscribe ''document-doc1'' ''bob'' ''bob'' ''bob@example.org'' 0]\<rparr>"
  by (simp add: bobJoining_def signedIn_eq model_defs alice_def bob_def)

lemma bobEditing_eq: "bobEditing =
     \<lparr>documentId = ''doc1'', documentTitle = ''Untitled document'',
      documentContent = ''Hello world'',
      isEditing = False, user = Some bob, isLoading = False, isSaving = False,
      lastSaved = Some 1000, collaborators = [], comments = [], selectedText = [],
      saveTimeout = Some (2000, \<lparr>cl_user = Some bob, cl_isSaving = False,
         cl_documentTitle = ''Untitled document'', cl_documentContent = ''Hello world''\<rparr>),
      editorHTML = ''Hello world'', windowSelection = SelRange InEditor 11 11,
      handlers = [alice, bob], tasks = [], now = 1000,
      effects = [DocumentsList ''doc1'' 1, CommentsList ''doc1'',
                 ChannelSubscribe ''document-doc1'' ''alice'' ''alice'' ''alice@example.org'' 0,
                 DocumentsList ''doc1'' 1, CommentsList ''doc1'',
                 ChannelSubscribe ''document-doc1'' ''bob'' ''bob'' ''bob@example.org'' 0,
                 DocumentsUpsert \<lparr>d_id = ''doc1'', d_title = Some ''Untitled document'',
                    d_content = Some ''Hello'', d_userId = ''bob'', d_updatedAt = 1000\<rparr>,
                 Publish ''document-doc1'' (ContentUpdate ''Hello'' ''bob'')]\<rparr>"
  by (simp add: bobEditing_def bobJoining_eq model_defs alice_def bob_def
        handleTextSelection_def)




text \<open>A render in which no dependency of an effect changed runs no effect.\<close>

lemma commit_unchanged:
  assumes "documentContent new = documentContent old" and "user new = user old"
    and "isLoading new = isLoading old"
  shows "commit old new = new"
proof -
  have "editorMounted new = editorMounted old"
    using assms by (simp add: editorMounted_def)
  with assms show ?thesis by (simp add: commit_def)
qed

lemma commit_fields:
  "collaborators (commit old new) = collaborators new"
  "comments (commit old new) = comments new"
  "documentContent (commit old new) = documentContent new"
  "documentTitle (commit old new) = documentTitle new"
  "windowSelection (commit old new) = windowSelection new"
  "user (commit old new) = user new"
  "isLoading (commit old new) = isLoading new"
  "isSaving (commit old new) = isSaving new"
  "selectedText (commit old new) = selectedText new"
  "handlers (commit old new) = handlers new"
  "now (commit old new) = now new"
  "documentId (commit old new) = documentId new"
  by (simp_all add: commit_def Let_def loadEffect_def autoSaveEffect_def setupRealtime_def
        loadComments_def loadDocument_def suspend_def emit_def split: option.splits)

lemma commit_effects:
  "user new = user old \<Longrightarrow> effects (commit old new) = effects new"
  "user new = user old \<Longrightarrow> tasks (commit old new) = tasks new"
  by (simp_all add: commit_def Let_def autoSaveEffect_def)

lemma resolve_task:
  "n < length (tasks s) \<Longrightarrow> accepts (tasks s ! n) r \<Longrightarrow>
   resolve dm n r s =
     resume dm (tasks s ! n) r (s\<lparr>tasks := take n (tasks s) @ drop (Suc n) (tasks s)\<rparr>)"
  by (simp add: resolve_def)

lemma onMessage_self_content:
  "m_payload m = ContentUpdate content updatedBy \<Longrightarrow> m_userId m = uid u \<Longrightarrow>
   onMessage dm u m s = Inr s"
  by (simp add: onMessage_def)

subsection \<open>Single events\<close>

lemma step_Elapse_quiet:
  assumes "case saveTimeout s of None \<Rightarrow> True | Some (deadline, cl) \<Rightarrow> now s + d < deadline"
  shows "step dm (Elapse d) s = s\<lparr>now := now s + d\<rparr>"
proof -
  have "elapse d s = s\<lparr>now := now s + d\<rparr>"
    using assms by (auto simp add: elapse_def split: option.splits)
  then show ?thesis by (simp add: step_def commit_unchanged)
qed

lemma step_Input_same:
  assumes "editorMounted s" and "c = documentContent s"
  shows "step dm (Input c) s = s\<lparr>editorHTML := c\<rparr>"
  using assms by (simp add: step_def handleContentChange_def commit_unchanged)

lemma step_Input_empty:
  assumes "editorMounted s" and "documentContent s \<noteq> []"
  shows "step dm (Input []) s = s\<lparr>editorHTML := [], documentContent := []\<rparr>"
  using assms
  by (simp add: step_def handleContentChange_def commit_def editorMounted_def Let_def
        autoSaveEffect_def)

lemma step_Input_changed:
  assumes "editorMounted s" and "c \<noteq> documentContent s" and "c \<noteq> []"
  shows "step dm (Input c) s =
           s\<lparr>editorHTML := c, documentContent := c,
             saveTimeout := Some (now s + 1000, closureOf (s\<lparr>documentContent := c\<rparr>))\<rparr>"
  using assms
  by (simp add: step_def handleContentChange_def commit_def editorMounted_def Let_def
        autoSaveEffect_def closureOf_def)

lemma step_Elapse_fire:
  assumes "saveTimeout s = Some (deadline, cl)" and "deadline \<le> now s + d"
    and "cl_user cl = Some u" and "\<not> cl_isSaving cl"
  shows "effects (step dm (Elapse d) s) =
           effects s @ [DocumentsUpsert
              \<lparr>d_id = documentId s, d_title = Some (cl_documentTitle cl),
               d_content = Some (cl_documentContent cl), d_userId = uid u,
               d_updatedAt = max (now s) deadline\<rparr>]"
    and "tasks (step dm (Elapse d) s) = tasks s @ [SaveUpsertAwait u cl]"
    and "saveTimeout (step dm (Elapse d) s) = None"
    and "isSaving (step dm (Elapse d) s)"
    and "documentId (step dm (Elapse d) s) = documentId s"
    and "documentContent (step dm (Elapse d) s) = documentContent s"
proof -
  have e: "elapse d s =
             s\<lparr>now := now s + d, saveTimeout := None, isSaving := True,
               effects := effects s @ [DocumentsUpsert
                  \<lparr>d_id = documentId s, d_title = Some (cl_documentTitle cl),
                   d_content = Some (cl_documentContent cl), d_userId = uid u,
                   d_updatedAt = max (now s) deadline\<rparr>],
               tasks := tasks s @ [SaveUpsertAwait u cl]\<rparr>"
    using assms by (simp add: elapse_def saveDocument_def suspend_def emit_def)
  have c: "step dm (Elapse d) s = elapse d s"
    by (simp add: step_def commit_unchanged e)
  show "effects (step dm (Elapse d) s) =
           effects s @ [DocumentsUpsert
              \<lparr>d_id = documentId s, d_title = Some (cl_documentTitle cl),
               d_content = Some (cl_documentContent cl), d_userId = uid u,
               d_updatedAt = max (now s) deadline\<rparr>]"
    and "tasks (step dm (Elapse d) s) = tasks s @ [SaveUpsertAwait u cl]"
    and "saveTimeout (step dm (Elapse d) s) = None"
    and "isSaving (step dm (Elapse d) s)"
    and "documentId (step dm (Elapse d) s) = documentId s"
    and "documentContent (step dm (Elapse d) s) = documentContent s"
    by (simp_all add: c e)
qed

lemma step_Elapse_busy:
  assumes "saveTimeout s = Some (deadline, cl)" and "deadline \<le> now s + d" and "cl_isSaving cl"
  shows "step dm (Elapse d) s = s\<lparr>now := now s + d, saveTimeout := None\<rparr>"
proof -
  have e: "elapse d s = s\<lparr>now := now s + d, saveTimeout := None\<rparr>"
    using assms by (simp add: elapse_def saveDocument_def split: option.splits)
  show ?thesis by (simp add: step_def commit_unchanged e)
qed

lemma step_Resolve_saveUpsert:
  assumes "n < length (tasks s)" and "tasks s ! n = SaveUpsertAwait u cl"
  shows "step dm (Resolve n Fulfilled) s =
           s\<lparr>tasks := take n (tasks s) @ drop (Suc n) (tasks s) @ [SavePublishAwait u cl],
             lastSaved := Some (now s),
             effects := effects s @ [Publish (topic s) (ContentUpdate (cl_documentContent cl) (uid u))]\<rparr>"
    and "step dm (Resolve n Rejected) s =
           s\<lparr>tasks := take n (tasks s) @ drop (Suc n) (tasks s),
             effects := effects s @ [ConsoleError ''Failed to save document:''],
             isSaving := False\<rparr>"
  using assms
  by (simp_all add: step_def commit_unchanged resolve_def accepts_def saveUpsert_resume_def
        suspend_def emit_def topic_def)

lemma step_Resolve_savePublish:
  assumes "n < length (tasks s)" and "tasks s ! n = SavePublishAwait u cl"
  shows "step dm (Resolve n Fulfilled) s =
           s\<lparr>tasks := take n (tasks s) @ drop (Suc n) (tasks s), isSaving := False\<rparr>"
    and "step dm (Resolve n Rejected) s =
           s\<lparr>tasks := take n (tasks s) @ drop (Suc n) (tasks s),
             effects := effects s @ [ConsoleError ''Failed to save document:''],
             isSaving := False\<rparr>"
  using assms
  by (simp_all add: step_def commit_unchanged resolve_def accepts_def savePublish_resume_def
        suspend_def emit_def)




subsection \<open>The invariant holds in every reachable state\<close>

lemma flushInv_init: "flushInv (init docId t0)"
  by (simp add: flushInv_def timerOk_def init_def)

lemma flushInv_editorHTML: "flushInv (s\<lparr>editorHTML := x\<rparr>) = flushInv s"
  by (simp add: flushInv_def timerOk_def)

lemma flushInv_loadEffect: "flushInv s \<Longrightarrow> flushInv (loadEffect s)"
  by (auto simp add: flushInv_def timerOk_def loadEffect_def setupRealtime_def
        loadComments_def loadDocument_def suspend_def emit_def split: option.splits)

lemma flushInv_autoSaveEffect: "flushInv s \<Longrightarrow> flushInv (autoSaveEffect s)"
  by (simp add: flushInv_def timerOk_def autoSaveEffect_def closureOf_def)

lemma flushInv_commit: "flushInv new \<Longrightarrow> flushInv (commit old new)"
  by (simp add: commit_def Let_def flushInv_editorHTML flushInv_loadEffect
        flushInv_autoSaveEffect)

lemma deliver_frame:
  "saveTimeout (deliver dm m hs s) = saveTimeout s \<and> isSaving (deliver dm m hs s) = isSaving s \<and>
   tasks (deliver dm m hs s) = tasks s \<and>
   list_all (\<lambda>e. \<not> emptyContent e) (effects (deliver dm m hs s))
     = list_all (\<lambda>e. \<not> emptyContent e) (effects s)"
proof (induction hs arbitrary: s)
  case Nil
  then show ?case by simp
next
  case (Cons u us)
  show ?case
  proof (cases "onMessage dm u m s")
    case (Inl e)
    then show ?thesis using Cons.IH [of "emit (Uncaught e) s"] by (simp add: emit_def)
  next
    case (Inr s')
    then have "saveTimeout s' = saveTimeout s \<and> isSaving s' = isSaving s \<and> tasks s' = tasks s
                \<and> effects s' = effects s"
      by (auto simp add: onMessage_def applyRemoteContent_def Let_def
            split: payload.splits if_splits selection.splits option.splits sum.splits)
    with Inr show ?thesis using Cons.IH [of s'] by simp
  qed
qed

lemma presence_frame:
  "saveTimeout (fold (\<lambda>u. onPresence u users) hs s) = saveTimeout s \<and>
   isSaving (fold (\<lambda>u. onPresence u users) hs s) = isSaving s \<and>
   tasks (fold (\<lambda>u. onPresence u users) hs s) = tasks s \<and>
   effects (fold (\<lambda>u. onPresence u users) hs s) = effects s"
  by (induction hs arbitrary: s) (simp_all add: onPresence_def)

lemma flushInv_deliver: "flushInv s \<Longrightarrow> flushInv (deliver dm m hs s)"
  using deliver_frame [of dm m hs s]
  by (auto simp add: flushInv_def timerOk_def split: option.splits)

lemma flushInv_presence: "flushInv s \<Longrightarrow> flushInv (fold (\<lambda>u. onPresence u users) hs s)"
  using presence_frame [of users hs s]
  by (auto simp add: flushInv_def timerOk_def split: option.splits)

lemma list_all_remove_nth:
  "list_all P xs \<Longrightarrow> list_all P (take n xs) \<and> list_all P (drop (Suc n) xs)"
  by (auto simp add: list_all_iff dest: in_set_takeD in_set_dropD)

lemma flushInv_resume:
  "flushInv s \<Longrightarrow> taskOk t \<Longrightarrow> flushInv (resume dm t r s)"
  by (cases t; cases r)
     (auto simp add: flushInv_def timerOk_def loadDocument_resume_def loadComments_resume_def
        setupRealtime_resume_def saveUpsert_resume_def savePublish_resume_def
        titleUpsert_resume_def titlePublish_resume_def commentCreate_resume_def
        commentPublish_resume_def emit_def suspend_def Let_def
        split: option.splits list.splits)

lemma flushInv_resolve: "flushInv s \<Longrightarrow> flushInv (resolve dm n r s)"
proof (cases "n < length (tasks s) \<and> accepts (tasks s ! n) r")
  case True
  assume inv: "flushInv s"
  let ?s = "s\<lparr>tasks := take n (tasks s) @ drop (Suc n) (tasks s)\<rparr>"
  from inv have "flushInv ?s"
    by (auto simp add: flushInv_def timerOk_def list_all_remove_nth split: option.splits)
  moreover from inv True have "taskOk (tasks s ! n)"
    by (simp add: flushInv_def list_all_length)
  ultimately show ?thesis using True by (simp add: resolve_def flushInv_resume)
next
  case False
  assume "flushInv s"
  with False show ?thesis by (auto simp add: resolve_def)
qed

lemma flushInv_elapse: "flushInv s \<Longrightarrow> flushInv (elapse d s)"
  by (auto simp add: flushInv_def timerOk_def elapse_def saveDocument_def suspend_def emit_def
        split: option.splits)

lemma flushInv_handle: "flushInv s \<Longrightarrow> flushInv (handle dm e s)"
proof (cases e)
  case (Elapse d)
  assume "flushInv s" then show ?thesis using Elapse by (simp add: flushInv_elapse)
next
  case (Resolve n r)
  assume "flushInv s" then show ?thesis using Resolve by (simp add: flushInv_resolve)
next
  case (ChannelMessage m)
  assume "flushInv s" then show ?thesis using ChannelMessage by (simp add: flushInv_deliver)
next
  case (ChannelPresence us)
  assume "flushInv s" then show ?thesis using ChannelPresence by (simp add: flushInv_presence)
qed (auto simp add: flushInv_def timerOk_def handleContentChange_def handleTextSelection_def
       handleTitleSave_def addComment_def suspend_def emit_def Let_def
       split: option.splits selection.splits)

lemma flushInv_step: "flushInv s \<Longrightarrow> flushInv (step dm e s)"
  by (simp add: step_def flushInv_commit flushInv_handle)

lemma flushInv_run: "flushInv s \<Longrightarrow> flushInv (run dm es s)"
  by (induction es arbitrary: s) (simp_all add: flushInv_step)

lemma flushInv_reachable: "flushInv (run dm es (init docId t0))"
  by (simp add: flushInv_run flushInv_init)

subsection \<open>A burst within the quiet period\<close>

lemma sameSession_refl: "sameSession s s"
  by (simp add: sameSession_def)

lemma sameSession_trans: "sameSession a b \<Longrightarrow> sameSession b c \<Longrightarrow> sameSession a c"
  by (simp add: sameSession_def)

lemma pair_step:
  assumes m: "editorMounted s"
    and q: "case saveTimeout s of None \<Rightarrow> True | Some (deadline, cl) \<Rightarrow> now s + d < deadline"
  shows "sameSession s (step dm (Input c) (step dm (Elapse d) s)) \<and>
         editorMounted (step dm (Input c) (step dm (Elapse d) s)) \<and>
         documentContent (step dm (Input c) (step dm (Elapse d) s)) = c \<and>
         (c \<noteq> documentContent s \<or> armed s \<longrightarrow>
            c = [] \<or> armed (step dm (Input c) (step dm (Elapse d) s)))"
proof -
  let ?s1 = "s\<lparr>now := now s + d\<rparr>"
  have e: "step dm (Elapse d) s = ?s1"
    using q by (rule step_Elapse_quiet)
  have m1: "editorMounted ?s1"
    using m by (simp add: editorMounted_def)
  consider (same) "c = documentContent s" | (empty) "c \<noteq> documentContent s" "c = []"
    | (changed) "c \<noteq> documentContent s" "c \<noteq> []"
    by blast
  then show ?thesis
  proof cases
    case same
    then have "step dm (Input c) ?s1 = ?s1\<lparr>editorHTML := c\<rparr>"
      using m1 by (simp add: step_Input_same)
    with same m show ?thesis
      unfolding e
      by (auto simp add: sameSession_def editorMounted_def armed_def closureOf_def)
  next
    case empty
    then have "step dm (Input c) ?s1 = ?s1\<lparr>editorHTML := [], documentContent := []\<rparr>"
      using m1 step_Input_empty [of ?s1 dm] by simp
    with empty m show ?thesis
      unfolding e by (simp add: sameSession_def editorMounted_def)
  next
    case changed
    then have "step dm (Input c) ?s1 =
                 ?s1\<lparr>editorHTML := c, documentContent := c,
                      saveTimeout := Some (now ?s1 + 1000, closureOf (?s1\<lparr>documentContent := c\<rparr>))\<rparr>"
      using m1 step_Input_changed [of ?s1 c dm] by simp
    with changed m show ?thesis
      unfolding e
      by (simp add: sameSession_def editorMounted_def armed_def closureOf_def)
  qed
qed

lemma burst_armed:
  assumes "editorMounted s" and "documentContent s = [] \<or> armed s" and "quiet dm s es"
  shows "sameSession s (run dm (burst es) s) \<and> editorMounted (run dm (burst es) s) \<and>
         (documentContent (run dm (burst es) s) = [] \<or> armed (run dm (burst es) s)) \<and>
         (es \<noteq> [] \<longrightarrow> documentContent (run dm (burst es) s) = snd (last es))"
  using assms
proof (induction es arbitrary: s)
  case Nil
  then show ?case by (simp add: sameSession_refl)
next
  case (Cons e es)
  obtain d c where e: "e = (d, c)" by (cases e)
  let ?s1 = "step dm (Input c) (step dm (Elapse d) s)"
  from Cons.prems(3) e
  have q: "case saveTimeout s of None \<Rightarrow> True | Some (deadline, cl) \<Rightarrow> now s + d < deadline"
    and q': "quiet dm ?s1 es"
    by simp_all
  from pair_step [OF Cons.prems(1) q, of dm c]
  have p: "sameSession s ?s1" "editorMounted ?s1" "documentContent ?s1 = c"
    "c \<noteq> documentContent s \<or> armed s \<longrightarrow> c = [] \<or> armed ?s1"
    by simp_all
  have a: "documentContent ?s1 = [] \<or> armed ?s1"
    using p(3,4) Cons.prems(2) by metis
  from Cons.IH [OF p(2) a q']
  have ih: "sameSession ?s1 (run dm (burst es) ?s1)" "editorMounted (run dm (burst es) ?s1)"
    "documentContent (run dm (burst es) ?s1) = [] \<or> armed (run dm (burst es) ?s1)"
    "es \<noteq> [] \<longrightarrow> documentContent (run dm (burst es) ?s1) = snd (last es)"
    by simp_all
  have r: "run dm (burst (e # es)) s = run dm (burst es) ?s1"
    by (simp add: e)
  have l: "documentContent (run dm (burst es) ?s1) = snd (last (e # es))"
  proof (cases "es = []")
    case True
    then show ?thesis using p(3) e by simp
  next
    case False
    then show ?thesis using ih(4) by simp
  qed
  show ?case
    unfolding r using ih(2,3) l sameSession_trans [OF p(1) ih(1)] by simp
qed

lemma burst_changes:
  assumes "editorMounted s" and "quiet dm s es"
    and "\<exists>c \<in> set (map snd es). c \<noteq> documentContent s"
  shows "sameSession s (run dm (burst es) s) \<and> editorMounted (run dm (burst es) s) \<and>
         (documentContent (run dm (burst es) s) = [] \<or> armed (run dm (burst es) s)) \<and>
         documentContent (run dm (burst es) s) = snd (last es)"
  using assms
proof (induction es arbitrary: s)
  case Nil
  then show ?case by simp
next
  case (Cons e es)
  obtain d c where e: "e = (d, c)" by (cases e)
  let ?s1 = "step dm (Input c) (step dm (Elapse d) s)"
  from Cons.prems(2) e
  have q: "case saveTimeout s of None \<Rightarrow> True | Some (deadline, cl) \<Rightarrow> now s + d < deadline"
    and q': "quiet dm ?s1 es"
    by simp_all
  from pair_step [OF Cons.prems(1) q, of dm c]
  have p: "sameSession s ?s1" "editorMounted ?s1" "documentContent ?s1 = c"
    "c \<noteq> documentContent s \<or> armed s \<longrightarrow> c = [] \<or> armed ?s1"
    by simp_all
  have r: "run dm (burst (e # es)) s = run dm (burst es) ?s1"
    by (simp add: e)
  show ?case
  proof (cases "c = documentContent s")
    case True
    with Cons.prems(3) e p(3) have ex: "\<exists>c \<in> set (map snd es). c \<noteq> documentContent ?s1"
      by auto
    then have ne: "es \<noteq> []" by auto
    from Cons.IH [OF p(2) q' ex] ne show ?thesis
      unfolding r using sameSession_trans [OF p(1)] by auto
  next
    case False
    with p(3,4) have a: "documentContent ?s1 = [] \<or> armed ?s1" by metis
    from burst_armed [OF p(2) a q']
    have b: "sameSession ?s1 (run dm (burst es) ?s1)" "editorMounted (run dm (burst es) ?s1)"
      "documentContent (run dm (burst es) ?s1) = [] \<or> armed (run dm (burst es) ?s1)"
      "es \<noteq> [] \<longrightarrow> documentContent (run dm (burst es) ?s1) = snd (last es)"
      by simp_all
    have l: "documentContent (run dm (burst es) ?s1) = snd (last (e # es))"
    proof (cases "es = []")
      case True
      then show ?thesis using p(3) e by simp
    next
      case False
      then show ?thesis using b(4) by simp
    qed
    show ?thesis
      unfolding r using b(2,3) l sameSession_trans [OF p(1) b(1)] by simp
  qed
qed

text \<open>
  Edits that all fall within less than 1000 ms, starting with no timer pending (or with the
  pending one further away than the burst is long), are within the quiet period.
\<close>

lemma step_Input_timer:
  "now (step dm (Input c) s) = now s \<and>
   (saveTimeout (step dm (Input c) s) = saveTimeout s \<or>
    (\<exists>cl. saveTimeout (step dm (Input c) s) = Some (now s + 1000, cl)))"
  by (simp add: step_def handleContentChange_def commit_def Let_def autoSaveEffect_def
        editorMounted_def)

lemma quiet_within_a_second:
  assumes "sum_list (map fst es) < 1000"
    and "case saveTimeout s of None \<Rightarrow> True
         | Some (deadline, cl) \<Rightarrow> now s + sum_list (map fst es) < deadline"
  shows "quiet dm s es"
  using assms
proof (induction es arbitrary: s)
  case Nil
  then show ?case by simp
next
  case (Cons e es)
  obtain d c where e: "e = (d, c)" by (cases e)
  let ?s1 = "step dm (Elapse d) s"
  let ?s2 = "step dm (Input c) ?s1"
  have q: "case saveTimeout s of None \<Rightarrow> True | Some (deadline, cl) \<Rightarrow> now s + d < deadline"
    using Cons.prems(2) e by (auto split: option.splits)
  have s1: "?s1 = s\<lparr>now := now s + d\<rparr>"
    using q by (rule step_Elapse_quiet)
  have n2: "now ?s2 = now s + d"
    using step_Input_timer [of dm c ?s1] by (simp add: s1)
  have t2: "saveTimeout ?s2 = saveTimeout s \<or> (\<exists>cl. saveTimeout ?s2 = Some (now s + d + 1000, cl))"
    using step_Input_timer [of dm c ?s1] by (simp add: s1)
  have sum: "sum_list (map fst es) < 1000"
    using Cons.prems(1) e by simp
  have "case saveTimeout ?s2 of None \<Rightarrow> True
        | Some (deadline, cl) \<Rightarrow> now ?s2 + sum_list (map fst es) < deadline"
    using t2 Cons.prems(2) sum e by (auto simp add: n2 split: option.splits)
  from Cons.IH [OF sum this] q show ?case
    by (simp add: e)
qed


section \<open>Debounced saving\<close>

text \<open>
  Claim C1, amended. A signed-in, loaded session with no flush in flight receives a burst
  of edits, each issued before the pending timer fires. If some edit of the burst differs
  from the content before the burst, and the last edit is not the empty string, then
  nothing is written during the burst; once 1000 ms or more have passed after the last
  edit exactly one \<open>documents.upsert\<close> has been called, with the content of the last edit;
  when it succeeds exactly one \<open>content-update\<close> with that content is published; and no
  timer is left pending.
\<close>

theorem debounce_burst_single_flush:
  assumes "user s = Some u" and "\<not> isLoading s" and "\<not> isSaving s"
    and "quiet dm s es" and "\<exists>c \<in> set (map snd es). c \<noteq> documentContent s"
    and "snd (last es) \<noteq> []" and "1000 \<le> d"
  shows "let c = snd (last es);
             s1 = run dm (burst es) s;
             s2 = step dm (Elapse d) s1;
             s3 = step dm (Resolve (length (tasks s)) Fulfilled) s2
         in documentContent s1 = c \<and> effects s1 = effects s \<and>
            (\<exists>t. effects s2 = effects s @ [DocumentsUpsert
                    \<lparr>d_id = documentId s, d_title = Some (documentTitle s),
                     d_content = Some c, d_userId = uid u, d_updatedAt = t\<rparr>]) \<and>
            effects s3 = effects s2 @ [Publish (topic s) (ContentUpdate c (uid u))] \<and>
            saveTimeout s2 = None \<and> saveTimeout s3 = None"
proof -
  let ?c = "snd (last es)"
  let ?s1 = "run dm (burst es) s"
  let ?s2 = "step dm (Elapse d) ?s1"
  let ?cl = "closureOf ?s1"
  have m: "editorMounted s"
    using assms(1,2) by (simp add: editorMounted_def)
  from burst_changes [OF m assms(4,5)]
  have b: "sameSession s ?s1" "documentContent ?s1 = [] \<or> armed ?s1" "documentContent ?s1 = ?c"
    by blast+
  from b(2,3) assms(6) have "armed ?s1" by simp
  then obtain deadline where t: "saveTimeout ?s1 = Some (deadline, ?cl)"
    and dl: "deadline \<le> now ?s1 + 1000"
    by (auto simp add: armed_def)
  from dl assms(7) have due: "deadline \<le> now ?s1 + d" by simp
  have cl: "cl_user ?cl = Some u" "\<not> cl_isSaving ?cl" "cl_documentTitle ?cl = documentTitle s"
    "cl_documentContent ?cl = ?c"
    using b(1,3) assms(1,3) by (simp_all add: closureOf_def sameSession_def)
  have s1: "effects ?s1 = effects s" "tasks ?s1 = tasks s" "documentId ?s1 = documentId s"
    using b(1) by (simp_all add: sameSession_def)
  note f = step_Elapse_fire [OF t due cl(1,2), of dm]
  have e2: "effects ?s2 = effects s @ [DocumentsUpsert
              \<lparr>d_id = documentId s, d_title = Some (documentTitle s), d_content = Some ?c,
               d_userId = uid u, d_updatedAt = max (now ?s1) deadline\<rparr>]"
    using f(1) by (simp add: cl s1)
  have k2: "tasks ?s2 = tasks s @ [SaveUpsertAwait u ?cl]"
    using f(2) by (simp add: s1)
  have n: "length (tasks s) < length (tasks ?s2)" "tasks ?s2 ! length (tasks s) = SaveUpsertAwait u ?cl"
    by (simp_all add: k2)
  have t2: "topic ?s2 = topic s"
    using f(5) by (simp add: topic_def s1)
  note r = step_Resolve_saveUpsert(1) [OF n, of dm]
  have e3: "effects (step dm (Resolve (length (tasks s)) Fulfilled) ?s2)
              = effects ?s2 @ [Publish (topic s) (ContentUpdate ?c (uid u))]"
    by (simp add: r t2 cl)
  have t3: "saveTimeout (step dm (Resolve (length (tasks s)) Fulfilled) ?s2) = None"
    by (simp add: r f(3))
  show ?thesis
    unfolding Let_def using b(3) s1(1) e2 e3 f(3) t3 by blast
qed

theorem debounce_burst_single_flush_witness:
  "quiet plainText signedIn [(0, ''H''), (200, ''He''), (300, ''Hello'')] \<and>
   (let s1 = run plainText (burst [(0, ''H''), (200, ''He''), (300, ''Hello'')]) signedIn;
        s2 = step plainText (Elapse 1000) s1;
        s3 = step plainText (Resolve 0 Fulfilled) s2
    in documentContent s1 = ''Hello'' \<and>
       (\<exists>t. effects s2 = effects signedIn @ [DocumentsUpsert
               \<lparr>d_id = ''doc1'', d_title = Some ''Untitled document'',
                d_content = Some ''Hello'', d_userId = ''alice'', d_updatedAt = t\<rparr>]) \<and>
       effects s3 = effects s2 @ [Publish ''document-doc1'' (ContentUpdate ''Hello'' ''alice'')])"
proof -
  have h1: "user signedIn = Some alice" and h2: "\<not> isLoading signedIn"
    and h3: "\<not> isSaving signedIn"
    by (simp_all add: signedIn_eq)
  have h4: "quiet plainText signedIn [(0, ''H''), (200, ''He''), (300, ''Hello'')]"
    by code_simp
  have h5: "\<exists>c \<in> set (map snd [(0::nat, ''H''), (200, ''He''), (300, ''Hello'')]).
              c \<noteq> documentContent signedIn"
    by (simp add: signedIn_eq)
  have h6: "snd (last [(0::nat, ''H''), (200, ''He''), (300, ''Hello'')]) \<noteq> []"
    by simp
  have h7: "(1000::nat) \<le> 1000"
    by simp
  from debounce_burst_single_flush [OF h1 h2 h3 h4 h5 h6 h7] h4
  show ?thesis
    by (simp add: Let_def topic_def alice_def signedIn_eq)
qed

text \<open>
  Claim C1 as stated fails in three ways. A burst that ends with the empty string saves
  the earlier content \<open>a\<close>, not the last edit. A burst issued while a flush is in flight
  saves nothing. A burst that reports the content the component already holds saves
  nothing.
\<close>

theorem debounce_burst_counterexample:
  "(let es = [(0, ''a''), (100, [])];
        s1 = run plainText (burst es) signedIn;
        s2 = step plainText (Elapse 1000) s1
    in user signedIn = Some alice \<and> \<not> isLoading signedIn \<and> \<not> isSaving signedIn \<and>
       quiet plainText signedIn es \<and> snd (last es) = [] \<and> documentContent s1 = [] \<and>
       effects s2 = effects signedIn @ [DocumentsUpsert
          \<lparr>d_id = ''doc1'', d_title = Some ''Untitled document'', d_content = Some ''a'',
           d_userId = ''alice'', d_updatedAt = 1000\<rparr>]) \<and>
   (let s = run plainText [Input ''a'', Elapse 1000] signedIn;
        es = [(0, ''ab'')];
        s1 = run plainText (burst es) s;
        s2 = step plainText (Elapse 1000) s1
    in user s = Some alice \<and> \<not> isLoading s \<and> isSaving s \<and> quiet plainText s es \<and>
       documentContent s1 = ''ab'' \<and> effects s2 = effects s) \<and>
   (let s = run plainText [Input ''a'', Elapse 1000, Resolve 0 Fulfilled, Resolve 0 Fulfilled]
              signedIn;
        es = [(0, ''a'')];
        s1 = run plainText (burst es) s;
        s2 = step plainText (Elapse 1000) s1
    in user s = Some alice \<and> \<not> isLoading s \<and> \<not> isSaving s \<and> quiet plainText s es \<and>
       documentContent s = ''a'' \<and> documentContent s1 = ''a'' \<and> effects s2 = effects s)"
  by code_simp

text \<open>
  Claim C10, amended. In every reachable state no effect has written or broadcast the
  empty string as content. When a timer is pending and the surface reports the empty
  string, the in-memory content becomes empty, the timer stays as it is and nothing is
  called; the closure the timer holds has a non-empty content, and when the timer was
  started while no flush was in flight, it fires with an upsert of that content, followed
  on success by a \<open>content-update\<close> of that content.
\<close>

theorem emptied_content_keeps_pending_flush:
  assumes "s = run dm evs (init docId t0)"
  shows "list_all (\<lambda>e. \<not> emptyContent e) (effects s) \<and>
         (saveTimeout s = Some (deadline, cl) \<and> editorMounted s \<and> \<not> cl_isSaving cl \<and>
          deadline \<le> now s + d \<longrightarrow>
            (let s1 = step dm (Input []) s;
                 s2 = step dm (Elapse d) s1;
                 s3 = step dm (Resolve (length (tasks s)) Fulfilled) s2
             in documentContent s1 = [] \<and> saveTimeout s1 = Some (deadline, cl) \<and>
                effects s1 = effects s \<and> cl_documentContent cl \<noteq> [] \<and>
                (\<exists>u. cl_user cl = Some u \<and>
                   effects s2 = effects s @ [DocumentsUpsert
                      \<lparr>d_id = documentId s, d_title = Some (cl_documentTitle cl),
                       d_content = Some (cl_documentContent cl), d_userId = uid u,
                       d_updatedAt = max (now s) deadline\<rparr>] \<and>
                   effects s3 = effects s2 @
                      [Publish (topic s) (ContentUpdate (cl_documentContent cl) (uid u))])))"
proof -
  let ?s1 = "step dm (Input []) s"
  let ?s2 = "step dm (Elapse d) ?s1"
  let ?s3 = "step dm (Resolve (length (tasks s)) Fulfilled) ?s2"
  have inv: "flushInv s"
    unfolding assms(1) by (rule flushInv_reachable)
  then have all: "list_all (\<lambda>e. \<not> emptyContent e) (effects s)"
    by (simp add: flushInv_def)
  have flush: "let s1 = ?s1; s2 = ?s2; s3 = ?s3
         in documentContent s1 = [] \<and> saveTimeout s1 = Some (deadline, cl) \<and>
            effects s1 = effects s \<and> cl_documentContent cl \<noteq> [] \<and>
            (\<exists>u. cl_user cl = Some u \<and>
               effects s2 = effects s @ [DocumentsUpsert
                  \<lparr>d_id = documentId s, d_title = Some (cl_documentTitle cl),
                   d_content = Some (cl_documentContent cl), d_userId = uid u,
                   d_updatedAt = max (now s) deadline\<rparr>] \<and>
               effects s3 = effects s2 @
                  [Publish (topic s) (ContentUpdate (cl_documentContent cl) (uid u))])"
    if timer: "saveTimeout s = Some (deadline, cl)" and mounted: "editorMounted s"
      and idle: "\<not> cl_isSaving cl" and due0: "deadline \<le> now s + d"
  proof -
    from inv timer obtain u where u: "cl_user cl = Some u" and ne: "cl_documentContent cl \<noteq> []"
      by (auto simp add: flushInv_def timerOk_def)
    have s1: "?s1 = s\<lparr>editorHTML := [], documentContent := []\<rparr>"
    proof (cases "documentContent s = []")
      case True
      then show ?thesis using step_Input_same [OF mounted, of "[]" dm] by simp
    next
      case False
      then show ?thesis using step_Input_empty [OF mounted, of dm] by simp
    qed
    have t1: "saveTimeout ?s1 = Some (deadline, cl)" and due: "deadline \<le> now ?s1 + d"
      using timer due0 by (simp_all add: s1)
    note f = step_Elapse_fire [OF t1 due u idle, of dm]
    have e2: "effects ?s2 = effects s @ [DocumentsUpsert
                \<lparr>d_id = documentId s, d_title = Some (cl_documentTitle cl),
                 d_content = Some (cl_documentContent cl), d_userId = uid u,
                 d_updatedAt = max (now s) deadline\<rparr>]"
      using f(1) by (simp add: s1)
    have k2: "tasks ?s2 = tasks s @ [SaveUpsertAwait u cl]"
      using f(2) by (simp add: s1)
    have n: "length (tasks s) < length (tasks ?s2)"
      "tasks ?s2 ! length (tasks s) = SaveUpsertAwait u cl"
      by (simp_all add: k2)
    have t2: "topic ?s2 = topic s"
      using f(5) by (simp add: topic_def s1)
    note r = step_Resolve_saveUpsert(1) [OF n, of dm]
    have e3: "effects ?s3 = effects ?s2 @
                [Publish (topic s) (ContentUpdate (cl_documentContent cl) (uid u))]"
      by (simp add: r t2)
    have c1: "documentContent ?s1 = []" "effects ?s1 = effects s"
      by (simp_all add: s1)
    show ?thesis
      unfolding Let_def using c1 t1 ne u e2 e3 by blast
  qed
  show ?thesis
    using all flush unfolding Let_def by blast
qed

theorem emptied_content_keeps_pending_flush_witness:
  "(let s1 = step plainText (Input []) typedA;
        s2 = step plainText (Elapse 1000) s1;
        s3 = step plainText (Resolve 3 Fulfilled) s2
    in documentContent typedA = ''a'' \<and> documentContent s1 = [] \<and>
       effects s2 = effects typedA @ [DocumentsUpsert
          \<lparr>d_id = ''doc1'', d_title = Some ''Untitled document'', d_content = Some ''a'',
           d_userId = ''alice'', d_updatedAt = 1000\<rparr>] \<and>
       effects s3 = effects s2 @ [Publish ''document-doc1'' (ContentUpdate ''a'' ''alice'')])"
proof -
  have h: "saveTimeout typedA = Some (1000, \<lparr>cl_user = Some alice, cl_isSaving = False,
        cl_documentTitle = ''Untitled document'', cl_documentContent = ''a''\<rparr>)"
    "editorMounted typedA" "1000 \<le> now typedA + 1000"
    by code_simp+
  have f: "documentContent typedA = ''a''" "documentId typedA = ''doc1''"
    "length (tasks typedA) = 3" "now typedA = 0" "topic typedA = ''document-doc1''"
    by code_simp+
  from emptied_content_keeps_pending_flush
         [OF typedA_def, where d = 1000 and deadline = 1000
            and cl = "\<lparr>cl_user = Some alice, cl_isSaving = False,
                       cl_documentTitle = ''Untitled document'', cl_documentContent = ''a''\<rparr>"]
       h
  show ?thesis
    by (simp add: Let_def f alice_def)
qed

text \<open>
  Claim C10 as stated says the pending flush always persists and broadcasts the stale
  content. In \<open>savingA\<close> the flush of \<open>a\<close> is in flight when the timer for \<open>ab\<close> is
  started; the content is then emptied, the timer stays, fires a second later, and the
  busy guard drops the flush: nothing is persisted or broadcast.
\<close>

theorem emptied_content_busy_counterexample:
  "let s1 = step plainText (Input []) savingA;
       s2 = step plainText (Elapse 1000) s1
   in saveTimeout savingA = Some (2000, \<lparr>cl_user = Some alice, cl_isSaving = True,
         cl_documentTitle = ''Untitled document'', cl_documentContent = ''ab''\<rparr>) \<and>
      now savingA = 1000 \<and> documentContent savingA = ''ab'' \<and>
      documentContent s1 = [] \<and> saveTimeout s1 = saveTimeout savingA \<and>
      saveTimeout s2 = None \<and> effects s2 = effects savingA"
  by code_simp

text \<open>
  Claim C6. In every reachable state: when the timer fires while \<open>isSaving\<close> holds, only
  the clock and the timer change, so nothing is called and no task is added. When the
  upsert of a flush is rejected, the error is logged, \<open>isSaving\<close> is cleared, and neither a
  timer nor a task is added; when it succeeds the publish follows. When the publish
  settles, either way, \<open>isSaving\<close> is cleared and nothing is scheduled.
\<close>

theorem busy_flush_skipped_isSaving_cleared:
  assumes "s = run dm evs (init docId t0)"
  shows "(isSaving s \<and> saveTimeout s = Some (deadline, cl) \<and> deadline \<le> now s + d \<longrightarrow>
            step dm (Elapse d) s = s\<lparr>now := now s + d, saveTimeout := None\<rparr>) \<and>
         (n < length (tasks s) \<and> tasks s ! n = SaveUpsertAwait u cl' \<longrightarrow>
            step dm (Resolve n Rejected) s =
              s\<lparr>tasks := take n (tasks s) @ drop (Suc n) (tasks s),
                effects := effects s @ [ConsoleError ''Failed to save document:''],
                isSaving := False\<rparr> \<and>
            step dm (Resolve n Fulfilled) s =
              s\<lparr>tasks := take n (tasks s) @ drop (Suc n) (tasks s) @ [SavePublishAwait u cl'],
                lastSaved := Some (now s),
                effects := effects s @
                  [Publish (topic s) (ContentUpdate (cl_documentContent cl') (uid u))]\<rparr>) \<and>
         (n < length (tasks s) \<and> tasks s ! n = SavePublishAwait u cl' \<longrightarrow>
            step dm (Resolve n Fulfilled) s =
              s\<lparr>tasks := take n (tasks s) @ drop (Suc n) (tasks s), isSaving := False\<rparr> \<and>
            step dm (Resolve n Rejected) s =
              s\<lparr>tasks := take n (tasks s) @ drop (Suc n) (tasks s),
                effects := effects s @ [ConsoleError ''Failed to save document:''],
                isSaving := False\<rparr>)"
proof -
  have "flushInv s"
    unfolding assms by (rule flushInv_reachable)
  then have busy: "isSaving s \<and> saveTimeout s = Some (deadline, cl) \<longrightarrow> cl_isSaving cl"
    by (simp add: flushInv_def timerOk_def)
  show ?thesis
    using busy step_Elapse_busy [of s deadline cl d dm]
      step_Resolve_saveUpsert [of n s u cl' dm] step_Resolve_savePublish [of n s u cl' dm]
    by blast
qed

theorem busy_flush_skipped_isSaving_cleared_witness:
  "isSaving savingA \<and>
   step plainText (Elapse 1000) savingA = savingA\<lparr>now := 2000, saveTimeout := None\<rparr> \<and>
   \<not> isSaving (step plainText (Resolve 3 Rejected) savingA) \<and>
   isSaving publishingA \<and>
   \<not> isSaving (step plainText (Resolve 3 Fulfilled) publishingA) \<and>
   \<not> isSaving (step plainText (Resolve 3 Rejected) publishingA)"
proof -
  have h: "isSaving savingA"
    "saveTimeout savingA = Some (2000, \<lparr>cl_user = Some alice, cl_isSaving = True,
        cl_documentTitle = ''Untitled document'', cl_documentContent = ''ab''\<rparr>)"
    "2000 \<le> now savingA + 1000" "now savingA = 1000" "3 < length (tasks savingA)"
    "tasks savingA ! 3 = SaveUpsertAwait alice \<lparr>cl_user = Some alice, cl_isSaving = False,
        cl_documentTitle = ''Untitled document'', cl_documentContent = ''a''\<rparr>"
    by code_simp+
  have g: "isSaving publishingA" "3 < length (tasks publishingA)"
    "tasks publishingA ! 3 = SavePublishAwait alice \<lparr>cl_user = Some alice, cl_isSaving = False,
        cl_documentTitle = ''Untitled document'', cl_documentContent = ''a''\<rparr>"
    by code_simp+
  note a = busy_flush_skipped_isSaving_cleared
             [OF savingA_def, where d = 1000 and n = 3 and u = alice and deadline = 2000
                and cl = "\<lparr>cl_user = Some alice, cl_isSaving = True,
                           cl_documentTitle = ''Untitled document'', cl_documentContent = ''ab''\<rparr>"
                and cl' = "\<lparr>cl_user = Some alice, cl_isSaving = False,
                           cl_documentTitle = ''Untitled document'', cl_documentContent = ''a''\<rparr>"]
  note b = busy_flush_skipped_isSaving_cleared
             [OF publishingA_def, where n = 3 and u = alice
                and cl' = "\<lparr>cl_user = Some alice, cl_isSaving = False,
                           cl_documentTitle = ''Untitled document'', cl_documentContent = ''a''\<rparr>"]
  from a h have a1: "step plainText (Elapse 1000) savingA = savingA\<lparr>now := 2000, saveTimeout := None\<rparr>"
    and a2: "\<not> isSaving (step plainText (Resolve 3 Rejected) savingA)"
    by simp_all
  from b g have b1: "\<not> isSaving (step plainText (Resolve 3 Fulfilled) publishingA)"
    and b2: "\<not> isSaving (step plainText (Resolve 3 Rejected) publishingA)"
    by simp_all
  show ?thesis
    using h(1) g(1) a1 a2 b1 b2 by blast
qed


section \<open>Remote messages and presence\<close>

text \<open>
  A handler compares with the user it was registered for. For that user the two
  handlers do what is asked of them: a \<open>content-update\<close> of that user changes nothing, and
  a presence snapshot becomes the roster without that user's entries.
\<close>

lemma handler_ignores_its_own_user:
  assumes "m_payload m = ContentUpdate content updatedBy" and "m_userId m = uid u"
  shows "onMessage dm u m s = Inr s \<and> deliver dm m [u] s = s \<and>
         (handlers s = [u] \<longrightarrow> step dm (ChannelMessage m) s = s)"
  using assms by (simp add: onMessage_self_content step_def commit_unchanged)

lemma handler_filters_its_own_user:
  "collaborators (onPresence u users s) = filter (\<lambda>x. userId x \<noteq> uid u) users \<and>
   set (collaborators (onPresence u users s)) = set users - {x. userId x = uid u} \<and>
   (\<forall>x \<in> set (collaborators (onPresence u users s)). userId x \<noteq> uid u) \<and>
   (handlers s = [u] \<longrightarrow>
      collaborators (step dm (ChannelPresence users) s)
        = filter (\<lambda>x. userId x \<noteq> uid u) users)"
  by (auto simp add: onPresence_def step_def commit_fields)

text \<open>
  Claim C2. The claim fails on the code. The effect that calls \<open>setupRealtime\<close> returns no
  cleanup, so after Alice has signed out and Bob has signed in, the handler registered for
  Alice is still called. Bob's own \<open>content-update\<close> of \<open>Hello\<close> comes back from the
  channel while he has typed on to \<open>Hello world\<close>: the sender is the local user, yet
  Alice's handler sees another sender and applies it. The surface and the in-memory
  content fall back to \<open>Hello\<close> and the caret moves from 11 to 5.
\<close>

theorem stale_handler_applies_own_echo:
  "let m = \<lparr>m_userId = ''bob'', m_payload = ContentUpdate ''Hello'' ''bob''\<rparr>;
       s' = step plainText (ChannelMessage m) bobEditing
   in user bobEditing = Some bob \<and> m_userId m = uid bob \<and>
      handlers bobEditing = [alice, bob] \<and>
      last (effects bobEditing) = Publish ''document-doc1'' (m_payload m) \<and>
      documentContent bobEditing = ''Hello world'' \<and> documentContent s' = ''Hello'' \<and>
      editorHTML bobEditing = ''Hello world'' \<and> editorHTML s' = ''Hello'' \<and>
      windowSelection bobEditing = SelRange InEditor 11 11 \<and>
      windowSelection s' = SelRange InEditor 5 5"
  by (simp add: bobEditing_eq model_defs alice_def bob_def onMessage_def
        applyRemoteContent_def setStart_def plainText_def)

text \<open>
  Claim C3. The claim fails on the code, by the same missing cleanup. While Bob's
  subscription is pending, the only presence handler on the channel is the one registered
  for Alice. A snapshot with Bob and Carol arrives: the handler removes the entries of
  Alice, so the roster is the whole snapshot and the local user Bob is in it.
\<close>

theorem stale_handler_keeps_local_user_in_roster:
  "let snapshot = [\<lparr>userId = ''bob'', displayName = ''bob'', p_email = ''bob@example.org'',
                     cursor = Some 0, lastSeen = 5\<rparr>,
                   \<lparr>userId = ''carol'', displayName = ''carol'', p_email = ''carol@example.org'',
                     cursor = Some 0, lastSeen = 6\<rparr>];
       s' = step plainText (ChannelPresence snapshot) bobJoining
   in user bobJoining = Some bob \<and> handlers bobJoining = [alice] \<and>
      collaborators s' = snapshot \<and>
      collaborators s' \<noteq> filter (\<lambda>x. userId x \<noteq> uid bob) snapshot \<and>
      userId (hd (collaborators s')) = uid bob"
  by (simp add: bobJoining_eq model_defs alice_def bob_def onPresence_def)

text \<open>
  Claim C9. The \<open>comment-added\<close> branch prepends the received comment whoever sent it and
  whatever the list holds. When the local create has prepended its comment and published
  it, and the channel hands that message back to the sender, the list starts with the
  same comment twice.
\<close>

theorem comment_added_prepends_unconditionally:
  "onMessage dm u \<lparr>m_userId = sender, m_payload = CommentAdded c\<rparr> s
     = Inr (s\<lparr>comments := c # comments s\<rparr>) \<and>
   (let c' = c0\<lparr>c_user := Some \<lparr>cu_email = email u\<rparr>\<rparr>;
        s1 = commentCreate_resume u c0 Fulfilled s
    in comments s1 = c' # comments s \<and>
       last (effects s1) = Publish (topic s) (CommentAdded c') \<and>
       map_sum id comments
          (onMessage dm u \<lparr>m_userId = uid u, m_payload = CommentAdded c'\<rparr> s1)
         = Inr (c' # c' # comments s))"
  by (simp add: onMessage_def commentCreate_resume_def Let_def suspend_def emit_def topic_def)

text \<open>
  Claim C4. When a \<open>content-update\<close> of another sender is applied while the window has a
  range starting at offset \<open>a\<close>, the surface is assigned the message's content (and reads
  back as the browser serialises it), the in-memory content becomes the message's
  content, and the caret is set at \<open>min a (textLength content)\<close>: at \<open>a\<close> when
  \<open>a\<close> is at most the new text length, at the new text length otherwise. When the surface
  has no first child, or \<open>setStart\<close> refuses the offset, the handler still returns
  normally, with the content of the message and the range as the replacement left it.
\<close>

theorem caret_restoration:
  assumes "m_payload m = ContentUpdate content updatedBy" and "m_userId m \<noteq> uid u"
    and "editorMounted s" and "content \<noteq> []" and "windowSelection s = SelRange loc a b"
  shows "\<exists>s'. onMessage dm u m s = Inr s' \<and>
           editorHTML s' = serialised dm content \<and> documentContent s' = content \<and>
           effects s' = effects s \<and>
           (case firstChildLength dm content of
              None \<Rightarrow> windowSelection s' = rangeAfterReplace (SelRange loc a b)
            | Some n \<Rightarrow>
                if min a (textLength dm content) \<le> n
                then (a \<le> textLength dm content \<longrightarrow>
                        windowSelection s' = SelRange InEditor a a) \<and>
                     (textLength dm content < a \<longrightarrow>
                        windowSelection s'
                          = SelRange InEditor (textLength dm content) (textLength dm content))
                else windowSelection s' = rangeAfterReplace (SelRange loc a b))"
  using assms
  by (auto simp add: onMessage_def applyRemoteContent_def Let_def setStart_def min_def
        split: option.splits)

theorem caret_restoration_witness:
  "map_sum id windowSelection
     (onMessage plainText alice
        \<lparr>m_userId = ''bob'', m_payload = ContentUpdate ''Hello'' ''bob''\<rparr>
        (signedIn\<lparr>windowSelection := SelRange InEditor 7 7\<rparr>))
   = Inr (SelRange InEditor 5 5)"
  using caret_restoration
          [where m = "\<lparr>m_userId = ''bob'', m_payload = ContentUpdate ''Hello'' ''bob''\<rparr>"
             and content = "''Hello''" and updatedBy = "''bob''" and u = alice
             and dm = plainText and loc = InEditor and a = 7 and b = 7
             and s = "signedIn\<lparr>windowSelection := SelRange InEditor 7 7\<rparr>"]
  by (auto simp add: alice_def signedIn_eq editorMounted_def plainText_def)


section \<open>Loading the document\<close>

text \<open>
  Claim C5, amended. \<open>loadDocument\<close> asks the store for the records with the document's
  id, at most one. When a record comes back, the title becomes the record's title, or
  \<open>Untitled document\<close> when the record has no title or an empty one, and the content
  becomes the record's content, or the empty string when it has none. When no record
  comes back, or the call is rejected, title and content stay as they were; a rejection is
  logged and nothing else.
\<close>

theorem loadDocument_title_and_content:
  assumes "n < length (tasks s)" and "tasks s ! n = LoadDocumentAwait"
  shows "effects (loadDocument s0) = effects s0 @ [DocumentsList (documentId s0) 1] \<and>
         (let s' = step dm (Resolve n (Documents (doc # rest))) s
          in documentTitle s' =
               (case d_title doc of None \<Rightarrow> ''Untitled document''
                | Some t \<Rightarrow> if t = [] then ''Untitled document'' else t) \<and>
             documentContent s' = (case d_content doc of None \<Rightarrow> [] | Some c \<Rightarrow> c) \<and>
             effects s' = effects s) \<and>
         (let s' = step dm (Resolve n (Documents [])) s
          in documentTitle s' = documentTitle s \<and> documentContent s' = documentContent s \<and>
             effects s' = effects s) \<and>
         (let s' = step dm (Resolve n Rejected) s
          in documentTitle s' = documentTitle s \<and> documentContent s' = documentContent s \<and>
             effects s' = effects s @ [ConsoleError ''Failed to load document:''])"
  using assms
  by (simp add: step_def commit_fields commit_effects resolve_task accepts_def
        loadDocument_resume_def loadDocument_def Let_def js_or_def emit_def suspend_def
        split: option.splits)

theorem loadDocument_title_and_content_witness:
  "(let s' = step plainText
               (Resolve 0 (Documents [\<lparr>d_id = ''doc1'', d_title = Some ''Notes'',
                                        d_content = Some ''<p>X</p>'', d_userId = ''alice'',
                                        d_updatedAt = 0\<rparr>])) justSignedIn
    in documentTitle s' = ''Notes'' \<and> documentContent s' = ''<p>X</p>'')"
proof -
  have h1: "0 < length (tasks justSignedIn)"
    by (simp add: justSignedIn_eq)
  have h2: "tasks justSignedIn ! 0 = LoadDocumentAwait"
    by (simp add: justSignedIn_eq)
  from loadDocument_title_and_content
         [OF h1 h2, where dm = plainText and rest = "[]"
            and doc = "\<lparr>d_id = ''doc1'', d_title = Some ''Notes'',
                         d_content = Some ''<p>X</p>'', d_userId = ''alice'',
                         d_updatedAt = 0\<rparr>"]
  show ?thesis by (simp add: Let_def)
qed

text \<open>
  Claim C5 as stated says the title is set from the record. A record whose title is the
  empty string loads as \<open>Untitled document\<close>.
\<close>

theorem loadDocument_blank_title_counterexample:
  "let doc = \<lparr>d_id = ''doc1'', d_title = Some [], d_content = Some ''<p>X</p>'',
              d_userId = ''alice'', d_updatedAt = 0\<rparr>;
       s' = step plainText (Resolve 0 (Documents [doc])) justSignedIn
   in tasks justSignedIn ! 0 = LoadDocumentAwait \<and> d_title doc = Some [] \<and>
      documentTitle s' = ''Untitled document'' \<and> Some (documentTitle s') \<noteq> d_title doc"
  by (simp add: justSignedIn_eq step_def commit_fields resolve_def accepts_def
        loadDocument_resume_def js_or_def Let_def)


section \<open>Comments\<close>





section \<open>Signing out\<close>

text \<open>
  Claim C7. The claim fails on the code. Alice signs in, types \<open>a\<close> and signs out within
  the second: the timer started by the edit is still pending, and the \<open>saveDocument\<close> it
  calls is the one of the render in which Alice was signed in. With no user in the state,
  the component upserts the document and, when the store answers, publishes the content.
\<close>

theorem save_after_sign_out:
  "let s3 = run plainText [AuthStateChanged (Some alice) False, Input ''a'',
                           AuthStateChanged None False] (init ''doc1'' 0);
       s4 = step plainText (Elapse 1000) s3;
       s5 = step plainText (Resolve 3 Fulfilled) s4
   in user s3 = None \<and> user s4 = None \<and>
      effects s4 = effects s3 @ [DocumentsUpsert
         \<lparr>d_id = ''doc1'', d_title = Some ''Untitled document'', d_content = Some ''a'',
          d_userId = ''alice'', d_updatedAt = 1000\<rparr>] \<and>
      effects s5 = effects s4 @ [Publish ''document-doc1'' (ContentUpdate ''a'' ''alice'')]"
  by code_simp

end
